theory Spec2Isabelle
  imports Main "HOL-Library.Sublist"
begin

section \<open>Strings of the host language\<close>

text \<open>
  A source string is modelled as a \<^typ>\<open>string\<close>: a list of code units, each below 256
  and read as the code point of the same number (the Latin-1 range). On that range the
  library functions the program calls are written out below: \<open>trim\<close>, \<open>toLowerCase\<close>,
  \<open>includes\<close>, and the character classes of its regular expressions.
\<close>

definition isWhiteSpace :: "char \<Rightarrow> bool" where
  \<comment> \<open>white space and line terminators below 256: TAB, LF, VT, FF, CR, SP, NBSP\<close>
  "isWhiteSpace c = ((of_char c :: nat) \<in> {9, 10, 11, 12, 13, 32, 160})"

definition trim :: "string \<Rightarrow> string" where
  "trim s = rev (dropWhile isWhiteSpace (rev (dropWhile isWhiteSpace s)))"

definition toLowerCaseUnit :: "char \<Rightarrow> char" where
  \<comment> \<open>A..Z, and the upper-case letters U+00C0..U+00DE without the sign U+00D7\<close>
  "toLowerCaseUnit c =
     (let n = (of_char c :: nat)
      in if (65 \<le> n \<and> n \<le> 90) \<or> (192 \<le> n \<and> n \<le> 222 \<and> n \<noteq> 215)
         then char_of (n + 32) else c)"

definition toLowerCase :: "string \<Rightarrow> string" where
  "toLowerCase s = map toLowerCaseUnit s"

fun includes' :: "string \<Rightarrow> string \<Rightarrow> bool" where
  \<comment> \<open>\<open>s.includes(t)\<close>: scan the start positions of \<open>s\<close> from the left\<close>
  "includes' [] t = (t = [])"
| "includes' (c # cs) t = (prefix t (c # cs) \<or> includes' cs t)"

fun digits :: "nat \<Rightarrow> string" where
  "digits n =
     (if n < 10 then [''0123456789'' ! n]
      else digits (n div 10) @ [''0123456789'' ! (n mod 10)])"

declare digits.simps [simp del]

definition numberToString :: "int \<Rightarrow> string" where
  \<comment> \<open>an integer inside a template literal: decimal digits, a sign when negative\<close>
  "numberToString i = (if i < 0 then ''-'' @ digits (nat (- i)) else digits (nat i))"

section \<open>Regular expressions of the validators\<close>

text \<open>
  The three patterns of the program are anchored at both ends and are sequences of
  character classes, each with a repetition range: \<open>+\<close> is \<open>(1, None)\<close>, \<open>{2,4}\<close> is
  \<open>(2, Some 4)\<close>, a plain character is \<open>(1, Some 1)\<close>. \<open>test\<close> tries every number of
  repetitions the range and the input allow, and accepts at the end of the input only.
\<close>

type_synonym atom = "(char \<Rightarrow> bool) \<times> nat \<times> nat option"

definition inRange :: "char \<Rightarrow> char \<Rightarrow> char \<Rightarrow> bool" where
  "inRange lo hi c = ((of_char lo :: nat) \<le> of_char c \<and> (of_char c :: nat) \<le> of_char hi)"

definition isDigit :: "char \<Rightarrow> bool" where
  "isDigit c = inRange CHR ''0'' CHR ''9'' c"

definition isUpper :: "char \<Rightarrow> bool" where
  "isUpper c = inRange CHR ''A'' CHR ''Z'' c"

definition isUpperOrDigit :: "char \<Rightarrow> bool" where
  "isUpperOrDigit c = (isUpper c \<or> isDigit c)"

definition lit :: "char \<Rightarrow> atom" where
  "lit x = ((\<lambda>c. c = x), 1, Some 1)"

fun test :: "atom list \<Rightarrow> string \<Rightarrow> bool" where
  "test [] s = (s = [])"
| "test ((cls, lo, hi) # rest) s =
     (let m = length (takeWhile cls s);
          top = (case hi of None \<Rightarrow> m | Some h \<Rightarrow> min h m)
      in list_ex (\<lambda>k. test rest (drop k s)) [lo ..< Suc top])"

section \<open>The model: Device and DeviceModel\<close>

datatype DeviceStatus = Online | Offline | Error | Maintenance

text \<open>
  \<open>type\<close> holds the string value of the \<open>DeviceType\<close> enumeration. The two nullable
  fields are options; \<open>lastSeenAt\<close>, \<open>createdAt\<close> and \<open>updatedAt\<close> hold the time value
  (milliseconds since the epoch) of the timestamp, so reading a date out of its text
  form is outside the model.
\<close>

record Device =
  id' :: string
  name :: string
  serialNumber :: string
  type :: string
  status :: DeviceStatus
  lastSeenAt :: "int option"
  firmwareVersion :: string
  location :: "string option"
  createdAt :: int
  updatedAt :: int

definition DeviceModel_lastSeenAt :: "Device \<Rightarrow> int option" where
  "DeviceModel_lastSeenAt d = lastSeenAt d"

definition DeviceModel_location :: "Device \<Rightarrow> string option" where
  \<comment> \<open>\<open>this.data.location || null\<close>: the empty string is falsy\<close>
  "DeviceModel_location d =
     (case location d of None \<Rightarrow> None | Some l \<Rightarrow> if l = [] then None else Some l)"

definition lastSeenFormatted :: "int \<Rightarrow> Device \<Rightarrow> string" where
  "lastSeenFormatted now d =
     (case DeviceModel_lastSeenAt d of
        None \<Rightarrow> ''Never''
      | Some seen \<Rightarrow>
          (let diff = now - seen;
               minutes = diff div 60000;
               hours = minutes div 60;
               days = hours div 24
           in if days > 0
              then numberToString days @ '' day'' @ (if days > 1 then ''s'' else []) @ '' ago''
              else if hours > 0
              then numberToString hours @ '' hour'' @ (if hours > 1 then ''s'' else []) @ '' ago''
              else if minutes > 0
              then numberToString minutes @ '' minute'' @ (if minutes > 1 then ''s'' else [])
                     @ '' ago''
              else ''Just now''))"

definition isValidSerialNumber :: "string \<Rightarrow> bool" where
  "isValidSerialNumber serialNumber' =
     test [(isUpper, 2, Some 4), lit CHR ''-'', (isDigit, 3, Some 4), lit CHR ''-'',
           (isUpperOrDigit, 1, Some 4)] serialNumber'"

definition isValidFirmwareVersion :: "string \<Rightarrow> bool" where
  "isValidFirmwareVersion version =
     test [(isDigit, 1, None), lit CHR ''.'', (isDigit, 1, None), lit CHR ''.'',
           (isDigit, 1, None)] version"

definition isValidName :: "string \<Rightarrow> bool" where
  "isValidName name' = (length (trim name') \<ge> 3 \<and> length (trim name') \<le> 50)"

definition matchesSearch :: "Device \<Rightarrow> string \<Rightarrow> bool" where
  "matchesSearch d searchTerm' =
     (let term = toLowerCase searchTerm'
      in includes' (toLowerCase (name d)) term
         \<or> includes' (toLowerCase (serialNumber d)) term
         \<or> (case DeviceModel_location d of
               None \<Rightarrow> False
             | Some l \<Rightarrow> includes' (toLowerCase l) term)
         \<or> includes' (toLowerCase (type d)) term)"

section \<open>The view model: useDevices\<close>

record CreateDeviceInput =
  name :: string
  serialNumber :: string
  type :: string
  firmwareVersion :: string
  location :: "string option"

record UpdateDeviceInput =
  id' :: string
  name :: "string option"
  status :: "DeviceStatus option"
  firmwareVersion :: "string option"
  location :: "string option"

datatype js_error = JsError string

datatype mutation =
    CreateDeviceMutation CreateDeviceInput
  | UpdateDeviceMutation UpdateDeviceInput
  | DeleteDeviceMutation string

text \<open>
  The hook's state: its two state cells, the mutations handed to the data client so far
  (in order), and the labels written to the console by the \<open>catch\<close> blocks. A mutation
  function of the data client is a parameter of each action: it maps the variables to
  \<open>Inr ()\<close> when the promise resolves and to \<open>Inl e\<close> when it rejects with \<open>e\<close>.
\<close>

record hook =
  selectedDeviceId :: "string option"
  searchTerm :: string
  sent :: "mutation list"
  console :: "string list"

definition truthy :: "string option \<Rightarrow> bool" where
  \<comment> \<open>a string, null or undefined used as a condition\<close>
  "truthy v = (case v of None \<Rightarrow> False | Some s \<Rightarrow> s \<noteq> [])"

definition devices :: "Device list option \<Rightarrow> Device list" where
  "devices data = (case data of None \<Rightarrow> [] | Some ds \<Rightarrow> ds)"

definition selectedDevice :: "Device list option \<Rightarrow> hook \<Rightarrow> Device option" where
  "selectedDevice data h =
     (if truthy (selectedDeviceId h)
      then find (\<lambda>device. Some (Device.id' device) = selectedDeviceId h) (devices data)
      else None)"

definition filteredDevices :: "Device list option \<Rightarrow> hook \<Rightarrow> Device list" where
  "filteredDevices data h =
     (if searchTerm h \<noteq> []
      then filter (\<lambda>device. matchesSearch device (searchTerm h)) (devices data)
      else devices data)"

definition selectDevice :: "string option \<Rightarrow> hook \<Rightarrow> hook" where
  "selectDevice deviceId h = h\<lparr>selectedDeviceId := deviceId\<rparr>"

definition setSearchTerm :: "string \<Rightarrow> hook \<Rightarrow> hook" where
  "setSearchTerm t h = h\<lparr>searchTerm := t\<rparr>"

definition rethrow :: "string \<Rightarrow> js_error \<Rightarrow> hook \<Rightarrow> (js_error + unit) \<times> hook" where
  \<comment> \<open>\<open>catch (error) { console.error(label, error); throw error; }\<close>\<close>
  "rethrow label e h = (Inl e, h\<lparr>console := console h @ [label]\<rparr>)"

definition createDevice ::
  "(CreateDeviceInput \<Rightarrow> js_error + unit) \<Rightarrow> CreateDeviceInput \<Rightarrow> hook
     \<Rightarrow> (js_error + unit) \<times> hook" where
  "createDevice createDeviceMutation input h =
     (if \<not> isValidName (CreateDeviceInput.name input)
      then rethrow ''Failed to create device:''
             (JsError ''Device name must be between 3 and 50 characters'') h
      else if \<not> isValidSerialNumber (CreateDeviceInput.serialNumber input)
      then rethrow ''Failed to create device:''
             (JsError ''Invalid serial number format (expected: XX-000-XXX)'') h
      else if \<not> isValidFirmwareVersion (CreateDeviceInput.firmwareVersion input)
      then rethrow ''Failed to create device:''
             (JsError ''Invalid firmware version format (expected: X.Y.Z)'') h
      else (let h1 = h\<lparr>sent := sent h @ [CreateDeviceMutation input]\<rparr>
            in case createDeviceMutation input of
                 Inl e \<Rightarrow> rethrow ''Failed to create device:'' e h1
               | Inr u \<Rightarrow> (Inr (), h1)))"

definition updateDevice ::
  "(UpdateDeviceInput \<Rightarrow> js_error + unit) \<Rightarrow> UpdateDeviceInput \<Rightarrow> hook
     \<Rightarrow> (js_error + unit) \<times> hook" where
  "updateDevice updateDeviceMutation input h =
     (if truthy (UpdateDeviceInput.name input)
         \<and> \<not> isValidName (the (UpdateDeviceInput.name input))
      then rethrow ''Failed to update device:''
             (JsError ''Device name must be between 3 and 50 characters'') h
      else if truthy (UpdateDeviceInput.firmwareVersion input)
         \<and> \<not> isValidFirmwareVersion (the (UpdateDeviceInput.firmwareVersion input))
      then rethrow ''Failed to update device:''
             (JsError ''Invalid firmware version format (expected: X.Y.Z)'') h
      else (let h1 = h\<lparr>sent := sent h @ [UpdateDeviceMutation input]\<rparr>
            in case updateDeviceMutation input of
                 Inl e \<Rightarrow> rethrow ''Failed to update device:'' e h1
               | Inr u \<Rightarrow> (Inr (), h1)))"

definition deleteDevice ::
  "(string \<Rightarrow> js_error + unit) \<Rightarrow> string \<Rightarrow> hook \<Rightarrow> (js_error + unit) \<times> hook" where
  "deleteDevice deleteDeviceMutation deviceId h =
     (let h1 = h\<lparr>sent := sent h @ [DeleteDeviceMutation deviceId]\<rparr>
      in case deleteDeviceMutation deviceId of
           Inl e \<Rightarrow> rethrow ''Failed to delete device:'' e h1
         | Inr u \<Rightarrow>
             (Inr (),
              if selectedDeviceId h = Some deviceId
              then h1\<lparr>selectedDeviceId := None\<rparr> else h1))"

section \<open>Definitions on the side of the specification\<close>

text \<open>
  A repetition range, read as a bound on a length; a run of decimal digits; and the
  relative time as the specification words it: thresholds on the elapsed milliseconds,
  one division for each unit, and the singular exactly for the number one.
\<close>

definition within :: "nat \<Rightarrow> nat option \<Rightarrow> nat \<Rightarrow> bool" where
  "within lo hi k = (lo \<le> k \<and> (case hi of None \<Rightarrow> True | Some h \<Rightarrow> k \<le> h))"

definition digitRun_spec :: "string \<Rightarrow> bool" where
  "digitRun_spec x = (x \<noteq> [] \<and> list_all (\<lambda>c. c \<in> set ''0123456789'') x)"

definition ago_spec :: "int \<Rightarrow> string \<Rightarrow> string" where
  "ago_spec n unit =
     numberToString n @ '' '' @ unit @ (if n = 1 then [] else ''s'') @ '' ago''"

definition lastSeenFormatted_spec :: "int \<Rightarrow> int option \<Rightarrow> string" where
  "lastSeenFormatted_spec now seen =
     (case seen of
        None \<Rightarrow> ''Never''
      | Some t \<Rightarrow>
          (let e = now - t
           in if e < 60000 then ''Just now''
              else if e < 3600000 then ago_spec (e div 60000) ''minute''
              else if e < 86400000 then ago_spec (e div 3600000) ''hour''
              else ago_spec (e div 86400000) ''day''))"

section \<open>Sample inputs\<close>

definition sensor :: Device where
  "sensor = \<lparr>Device.id' = ''1'', name = ''Test Sensor'', serialNumber = ''TS-001-A'',
     type = ''SENSOR'', status = Online, lastSeenAt = Some 1000, firmwareVersion = ''1.0.0'',
     location = Some ''Building A'', createdAt = 0, updatedAt = 0\<rparr>"

definition gateway :: Device where
  "gateway = \<lparr>Device.id' = ''2'', name = ''Main Hub'', serialNumber = ''GW-001-MAIN'',
     type = ''GATEWAY'', status = Offline, lastSeenAt = None, firmwareVersion = ''2.1.0'',
     location = None, createdAt = 0, updatedAt = 0\<rparr>"

definition h0 :: hook where
  "h0 = \<lparr>selectedDeviceId = Some ''1'', searchTerm = [], sent = [], console = []\<rparr>"

definition createShort :: CreateDeviceInput where
  "createShort = \<lparr>CreateDeviceInput.name = ''ab'', serialNumber = ''TS-001-A'',
     type = ''SENSOR'', firmwareVersion = ''1.0.0'', location = None\<rparr>"

definition createGood :: CreateDeviceInput where
  "createGood = \<lparr>CreateDeviceInput.name = ''New Sensor'', serialNumber = ''TS-001-A'',
     type = ''SENSOR'', firmwareVersion = ''1.0.0'', location = None\<rparr>"

definition updateEmptyName :: UpdateDeviceInput where
  "updateEmptyName = \<lparr>UpdateDeviceInput.id' = ''1'', name = Some [], status = None,
     firmwareVersion = None, location = None\<rparr>"

definition resolves :: "'a \<Rightarrow> js_error + unit" where
  "resolves v = Inr ()"

definition rejects :: "'a \<Rightarrow> js_error + unit" where
  "rejects v = Inl (JsError ''Network error'')"

section \<open>Facts about the string functions\<close>

lemma includes_sublist: "includes' s t \<longleftrightarrow> sublist t s"
  by (induction s) (auto simp: sublist_Cons_right)

lemma includes_Nil: "includes' s []"
  by (cases s) simp_all

lemma toLowerCaseUnit_idem: "toLowerCaseUnit (toLowerCaseUnit c) = toLowerCaseUnit c"
  by (auto simp: toLowerCaseUnit_def Let_def)

lemma toLowerCase_idem: "toLowerCase (toLowerCase s) = toLowerCase s"
  by (simp add: toLowerCase_def toLowerCaseUnit_idem)

lemma toLowerCase_Nil_iff: "toLowerCase s = [] \<longleftrightarrow> s = []"
  by (simp add: toLowerCase_def)

text \<open>\<open>trim\<close> removes white space only, and leaves none at either end.\<close>

lemma trim_shape:
  "\<exists>l r. s = l @ trim s @ r \<and> list_all isWhiteSpace l \<and> list_all isWhiteSpace r"
proof -
  let ?a = "takeWhile isWhiteSpace s" and ?b = "dropWhile isWhiteSpace s"
  have 1: "s = ?a @ ?b" by simp
  have 2: "rev ?b = takeWhile isWhiteSpace (rev ?b) @ dropWhile isWhiteSpace (rev ?b)" by simp
  have "?b = rev (dropWhile isWhiteSpace (rev ?b)) @ rev (takeWhile isWhiteSpace (rev ?b))"
    by (metis 2 rev_append rev_rev_ident)
  then have 3: "?b = trim s @ rev (takeWhile isWhiteSpace (rev ?b))"
    by (simp add: trim_def)
  have 4: "list_all isWhiteSpace ?a" by (simp add: list_all_iff) (meson set_takeWhileD)
  have 5: "list_all isWhiteSpace (rev (takeWhile isWhiteSpace (rev ?b)))"
    by (simp add: list_all_iff) (meson set_takeWhileD)
  from 1 3 have "s = ?a @ trim s @ rev (takeWhile isWhiteSpace (rev ?b))" by metis
  with 4 5 show ?thesis by blast
qed

lemma trim_ends:
  assumes ne: "trim s \<noteq> []"
  shows "\<not> isWhiteSpace (hd (trim s)) \<and> \<not> isWhiteSpace (last (trim s))"
proof -
  let ?b = "dropWhile isWhiteSpace s"
  let ?c = "dropWhile isWhiteSpace (rev ?b)"
  have c: "?c \<noteq> []" using ne by (simp add: trim_def)
  then have "\<not> isWhiteSpace (hd ?c)" by (rule hd_dropWhile)
  then have l: "\<not> isWhiteSpace (last (trim s))"
    using c by (simp add: trim_def last_rev)
  have bne: "?b \<noteq> []"
  proof
    assume e: "?b = []"
    have "?c = []" unfolding e by simp
    with c show False by simp
  qed
  then have hb: "\<not> isWhiteSpace (hd ?b)" by (rule hd_dropWhile)
  have "rev ?b = takeWhile isWhiteSpace (rev ?b) @ ?c" by simp
  then have "last (rev ?b) = last ?c" using c by (metis last_appendR)
  then have "hd (trim s) = hd ?b"
    using bne c by (simp add: trim_def hd_rev last_rev)
  with hb l show ?thesis by simp
qed

lemma dropWhile_all: "list_all p l \<Longrightarrow> dropWhile p (l @ t) = dropWhile p t"
  by (induction l) auto

text \<open>
  \<open>trim\<close> is determined by that: however \<open>s\<close> is cut into white space, a middle
  without white space at its ends, and white space, the middle is \<open>trim s\<close>.
\<close>

lemma trim_unique:
  assumes s: "s = l @ t @ r" and l: "list_all isWhiteSpace l" and r: "list_all isWhiteSpace r"
    and t: "t = [] \<or> \<not> isWhiteSpace (hd t) \<and> \<not> isWhiteSpace (last t)"
  shows "trim s = t"
proof (cases "t = []")
  case True
  have "list_all isWhiteSpace s" using s l r True by simp
  then have e: "dropWhile isWhiteSpace s = []" by (simp add: list_all_iff)
  show ?thesis unfolding trim_def e using True by simp
next
  case False
  then obtain a t' where a: "t = a # t'" by (cases t) auto
  have na: "\<not> isWhiteSpace a" using t False a by simp
  have 1: "dropWhile isWhiteSpace s = t @ r"
    using s l a na by (simp add: dropWhile_all)
  have "list_all isWhiteSpace (rev r)" using r by (simp add: list_all_iff)
  then have "dropWhile isWhiteSpace (rev r @ rev t) = dropWhile isWhiteSpace (rev t)"
    by (rule dropWhile_all)
  moreover have "hd (rev t) = last t" using False by (simp add: hd_rev)
  then have "\<not> isWhiteSpace (hd (rev t))" using t False by simp
  then have "dropWhile isWhiteSpace (rev t) = rev t"
    using False by (cases "rev t") auto
  ultimately show ?thesis using 1 by (simp add: trim_def)
qed

section \<open>Facts about the regular expressions\<close>

lemma isDigit_iff: "isDigit c \<longleftrightarrow> c \<in> set ''0123456789''"
  by (cases c) (simp add: isDigit_def inRange_def)

lemma takeWhile_all_prefix:
  "list_all p u \<Longrightarrow> length u \<le> length (takeWhile p (u @ v))"
  by (induction u) auto

lemma take_takeWhile_all:
  "k \<le> length (takeWhile p s) \<Longrightarrow> list_all p (take k s)"
proof (induction s arbitrary: k)
  case Nil
  then show ?case by simp
next
  case (Cons c cs)
  then show ?case by (cases k) (auto split: if_splits)
qed

text \<open>
  One item of a pattern takes a piece off the front of the input: a piece of the item's
  class, of a length in the item's range; the rest of the pattern has to match the rest.
\<close>

lemma test_Cons_iff:
  "test ((cls, lo, hi) # rest) s \<longleftrightarrow>
     (\<exists>u v. s = u @ v \<and> list_all cls u \<and> within lo hi (length u) \<and> test rest v)"
proof
  assume "test ((cls, lo, hi) # rest) s"
  then obtain k where k: "lo \<le> k" "k \<le> length (takeWhile cls s)"
      "case hi of None \<Rightarrow> True | Some h \<Rightarrow> k \<le> h" "test rest (drop k s)"
    by (auto simp: list_ex_iff Let_def less_Suc_eq_le simp del: upt_Suc split: option.splits)
  have "k \<le> length s"
    using k(2) length_takeWhile_le [of cls s] by linarith
  then have "length (take k s) = k" by simp
  moreover have "s = take k s @ drop k s" by simp
  moreover have "list_all cls (take k s)" using k(2) by (rule take_takeWhile_all)
  ultimately show "\<exists>u v. s = u @ v \<and> list_all cls u \<and> within lo hi (length u) \<and> test rest v"
    using k(1,3,4) unfolding within_def by metis
next
  assume "\<exists>u v. s = u @ v \<and> list_all cls u \<and> within lo hi (length u) \<and> test rest v"
  then obtain u v where uv: "s = u @ v" "list_all cls u" "within lo hi (length u)" "test rest v"
    by blast
  have "length u \<le> length (takeWhile cls s)"
    using uv(1,2) takeWhile_all_prefix by blast
  moreover have "test rest (drop (length u) s)" using uv(1,4) by simp
  ultimately show "test ((cls, lo, hi) # rest) s"
    using uv(3)
    by (auto simp: list_ex_iff Let_def within_def less_Suc_eq_le simp del: upt_Suc
        split: option.splits)
qed

lemma test_digits_plus:
  "test ((isDigit, 1, None) # rest) s \<longleftrightarrow>
     (\<exists>u v. s = u @ v \<and> digitRun_spec u \<and> test rest v)"
proof -
  have "\<And>u. (list_all isDigit u \<and> within 1 None (length u)) = digitRun_spec u"
    by (auto simp: within_def digitRun_spec_def isDigit_iff list_all_iff Suc_le_eq)
  then show ?thesis unfolding test_Cons_iff by (simp only: conj_assoc [symmetric])
qed

lemma test_lit:
  "test (lit x # rest) s \<longleftrightarrow> (\<exists>v. s = x # v \<and> test rest v)"
proof -
  have "\<And>u. (list_all (\<lambda>c. c = x) u \<and> within 1 (Some 1) (length u)) = (u = [x])"
    by (auto simp: within_def length_Suc_conv le_Suc_eq)
  then have "test (lit x # rest) s \<longleftrightarrow> (\<exists>u v. s = u @ v \<and> u = [x] \<and> test rest v)"
    unfolding lit_def test_Cons_iff by (simp only: conj_assoc [symmetric])
  then show ?thesis by simp
qed

lemma firmware_pattern_iff:
  "isValidFirmwareVersion s \<longleftrightarrow>
     (\<exists>a b c. s = a @ ''.'' @ b @ ''.'' @ c
        \<and> digitRun_spec a \<and> digitRun_spec b \<and> digitRun_spec c)"
proof -
  have "isValidFirmwareVersion s \<longleftrightarrow>
     (\<exists>a v. s = a @ v \<and> digitRun_spec a \<and> (\<exists>w. v = CHR ''.'' # w \<and>
        (\<exists>b x. w = b @ x \<and> digitRun_spec b \<and> (\<exists>y. x = CHR ''.'' # y \<and>
           (\<exists>c z. y = c @ z \<and> digitRun_spec c \<and> z = [])))))"
    unfolding isValidFirmwareVersion_def test_digits_plus test_lit test.simps(1) ..
  also have "\<dots> \<longleftrightarrow>
     (\<exists>a b c. s = a @ ''.'' @ b @ ''.'' @ c
        \<and> digitRun_spec a \<and> digitRun_spec b \<and> digitRun_spec c)"
  proof (intro iffI; elim exE conjE)
    fix a v w b x y c z
    assume "s = a @ v" "v = CHR ''.'' # w" "w = b @ x" "x = CHR ''.'' # y" "y = c @ z" "z = []"
      and "digitRun_spec a" "digitRun_spec b" "digitRun_spec c"
    then have "s = a @ ''.'' @ b @ ''.'' @ c
        \<and> digitRun_spec a \<and> digitRun_spec b \<and> digitRun_spec c"
      by simp
    then show "\<exists>a b c. s = a @ ''.'' @ b @ ''.'' @ c
        \<and> digitRun_spec a \<and> digitRun_spec b \<and> digitRun_spec c"
      by blast
  next
    fix a b c
    assume s: "s = a @ ''.'' @ b @ ''.'' @ c"
      and d: "digitRun_spec a" "digitRun_spec b" "digitRun_spec c"
    have "c = c @ [] \<and> digitRun_spec c \<and> ([]::string) = []" using d by simp
    then have 1: "\<exists>c' z. c = c' @ z \<and> digitRun_spec c' \<and> z = []" by blast
    have "b @ ''.'' @ c = b @ (CHR ''.'' # c) \<and> digitRun_spec b \<and>
             (\<exists>y. CHR ''.'' # c = CHR ''.'' # y
                \<and> (\<exists>c' z. y = c' @ z \<and> digitRun_spec c' \<and> z = []))"
      using d 1 by simp
    then have 2: "\<exists>b' x. b @ ''.'' @ c = b' @ x \<and> digitRun_spec b' \<and>
             (\<exists>y. x = CHR ''.'' # y \<and> (\<exists>c' z. y = c' @ z \<and> digitRun_spec c' \<and> z = []))"
      by blast
    have "s = a @ (CHR ''.'' # b @ ''.'' @ c) \<and> digitRun_spec a \<and>
       (\<exists>w. CHR ''.'' # b @ ''.'' @ c = CHR ''.'' # w \<and>
        (\<exists>b x. w = b @ x \<and> digitRun_spec b \<and> (\<exists>y. x = CHR ''.'' # y \<and>
           (\<exists>c z. y = c @ z \<and> digitRun_spec c \<and> z = []))))"
      using s d 2 by simp
    then show "\<exists>a v. s = a @ v \<and> digitRun_spec a \<and> (\<exists>w. v = CHR ''.'' # w \<and>
        (\<exists>b x. w = b @ x \<and> digitRun_spec b \<and> (\<exists>y. x = CHR ''.'' # y \<and>
           (\<exists>c z. y = c @ z \<and> digitRun_spec c \<and> z = []))))"
      by blast
  qed
  finally show ?thesis .
qed

section \<open>Facts about the elapsed time\<close>

lemma hours_div: "(e::int) div 60000 div 60 = e div 3600000"
  by (simp add: div_mult2_eq [symmetric])

lemma days_div: "(e::int) div 3600000 div 24 = e div 86400000"
  by (simp add: div_mult2_eq [symmetric])

lemma minutes_pos: "0 < (e::int) div 60000 \<longleftrightarrow> 60000 \<le> e"
  by (simp add: pos_imp_zdiv_pos_iff)

lemma hours_pos: "0 < (e::int) div 3600000 \<longleftrightarrow> 3600000 \<le> e"
  by (simp add: pos_imp_zdiv_pos_iff)

lemma days_pos: "0 < (e::int) div 86400000 \<longleftrightarrow> 86400000 \<le> e"
  by (simp add: pos_imp_zdiv_pos_iff)

lemma plural_suffix:
  "0 < (n::int) \<Longrightarrow> (if n > 1 then ''s'' else []) = (if n = 1 then [] else ''s'')"
  by auto

section \<open>The unit tests of the model class, evaluated\<close>

lemma tests_isValidSerialNumber:
  "isValidSerialNumber ''TS-001-A'' \<and> isValidSerialNumber ''GW-001-MAIN''
   \<and> isValidSerialNumber ''CAM-001-ENT'' \<and> isValidSerialNumber ''CTRL-001-HVAC''
   \<and> \<not> isValidSerialNumber ''invalid'' \<and> \<not> isValidSerialNumber ''TS001A''
   \<and> \<not> isValidSerialNumber ''TS-1-A'' \<and> \<not> isValidSerialNumber []"
  by code_simp

lemma tests_isValidFirmwareVersion:
  "isValidFirmwareVersion ''1.0.0'' \<and> isValidFirmwareVersion ''2.10.5''
   \<and> isValidFirmwareVersion ''10.0.0''"
  by code_simp

lemma tests_isValidName:
  "isValidName ''Test Device'' \<and> isValidName ''A B C''
   \<and> isValidName ''Temperature Sensor - Floor 1''
   \<and> \<not> isValidName ''AB'' \<and> \<not> isValidName ''  ''
   \<and> \<not> isValidName (replicate 51 CHR ''A'') \<and> \<not> isValidName []"
  by code_simp

lemma tests_matchesSearch:
  "matchesSearch sensor ''Test'' \<and> matchesSearch sensor ''sensor''
   \<and> matchesSearch sensor ''TEST SENSOR'' \<and> matchesSearch sensor ''TS-001''
   \<and> matchesSearch sensor ''001'' \<and> matchesSearch sensor ''ts-001-a''
   \<and> matchesSearch sensor ''Building'' \<and> matchesSearch sensor ''building a''
   \<and> matchesSearch sensor ''SENSOR''
   \<and> \<not> matchesSearch (sensor\<lparr>Device.location := None\<rparr>) ''Building''
   \<and> \<not> matchesSearch sensor ''xyz'' \<and> \<not> matchesSearch sensor ''camera''"
  by code_simp

section \<open>Validators\<close>

text \<open>
  C4. For all strings \<open>s\<close>: \<open>isValidName s\<close> is true if and only if the length of \<open>s\<close>
  after trimming is between 3 and 50 inclusive.
\<close>

theorem isValidName_trimmed_length:
  "isValidName s \<longleftrightarrow> 3 \<le> length (trim s) \<and> length (trim s) \<le> 50"
  by (simp add: isValidName_def)

theorem isValidName_trimmed_length_witness:
  "isValidName ''  A B C '' \<and> length (trim ''  A B C '') = 5 \<and> \<not> isValidName '' ab  ''"
proof -
  have a: "length (trim ''  A B C '') = 5" by (simp add: trim_def isWhiteSpace_def)
  have b: "length (trim '' ab  '') = 2" by (simp add: trim_def isWhiteSpace_def)
  show ?thesis
    using isValidName_trimmed_length [of "''  A B C ''"]
      isValidName_trimmed_length [of "'' ab  ''"] a b
    by simp
qed

text \<open>
  C5. For all strings \<open>s\<close>: \<open>isValidFirmwareVersion s\<close> is true if and only if the whole
  of \<open>s\<close> is three non-empty runs of decimal digits separated by two dots. In
  particular \<open>1.0\<close>, \<open>1.0.0.0\<close>, \<open>v1.0.0\<close> and the empty string are rejected.
\<close>

theorem isValidFirmwareVersion_three_runs:
  "(isValidFirmwareVersion s \<longleftrightarrow>
      (\<exists>a b c. s = a @ ''.'' @ b @ ''.'' @ c
         \<and> digitRun_spec a \<and> digitRun_spec b \<and> digitRun_spec c))
   \<and> \<not> isValidFirmwareVersion ''1.0''
   \<and> \<not> isValidFirmwareVersion ''1.0.0.0''
   \<and> \<not> isValidFirmwareVersion ''v1.0.0''
   \<and> \<not> isValidFirmwareVersion []"
proof -
  have "\<not> isValidFirmwareVersion ''1.0''" by code_simp
  moreover have "\<not> isValidFirmwareVersion ''1.0.0.0''" by code_simp
  moreover have "\<not> isValidFirmwareVersion ''v1.0.0''" by code_simp
  moreover have "\<not> isValidFirmwareVersion []" by code_simp
  ultimately show ?thesis using firmware_pattern_iff [of s] by blast
qed

theorem isValidFirmwareVersion_three_runs_witness:
  "\<exists>a b c. ''2.10.5'' = a @ ''.'' @ b @ ''.'' @ c
     \<and> digitRun_spec a \<and> digitRun_spec b \<and> digitRun_spec c"
proof -
  have "isValidFirmwareVersion ''2.10.5''" by code_simp
  then show ?thesis
    using isValidFirmwareVersion_three_runs [of "''2.10.5''"] by blast
qed

section \<open>The device model\<close>

text \<open>
  C6. For every device and every search term: \<open>matchesSearch\<close> is true if and only if
  the lower-cased term is a contiguous part of the lower-cased name, serial number,
  type or location, where an absent location (null or empty) contributes false. The
  match is case-insensitive: lower-casing the term, or the four fields, changes nothing.
\<close>

theorem matchesSearch_substring:
  "(matchesSearch d t \<longleftrightarrow>
      (sublist (toLowerCase t) (toLowerCase (Device.name d))
       \<or> sublist (toLowerCase t) (toLowerCase (Device.serialNumber d))
       \<or> sublist (toLowerCase t) (toLowerCase (Device.type d))
       \<or> (case Device.location d of
             None \<Rightarrow> False
           | Some l \<Rightarrow> l \<noteq> [] \<and> sublist (toLowerCase t) (toLowerCase l))))
   \<and> matchesSearch d (toLowerCase t) = matchesSearch d t
   \<and> matchesSearch
        (d\<lparr>Device.name := toLowerCase (Device.name d),
           Device.serialNumber := toLowerCase (Device.serialNumber d),
           Device.type := toLowerCase (Device.type d),
           Device.location := map_option toLowerCase (Device.location d)\<rparr>) t
      = matchesSearch d t"
proof -
  have "matchesSearch d t \<longleftrightarrow>
      (sublist (toLowerCase t) (toLowerCase (Device.name d))
       \<or> sublist (toLowerCase t) (toLowerCase (Device.serialNumber d))
       \<or> sublist (toLowerCase t) (toLowerCase (Device.type d))
       \<or> (case Device.location d of
             None \<Rightarrow> False
           | Some l \<Rightarrow> l \<noteq> [] \<and> sublist (toLowerCase t) (toLowerCase l)))"
    by (auto simp: matchesSearch_def DeviceModel_location_def Let_def includes_sublist
        split: option.splits if_splits)
  moreover have "matchesSearch d (toLowerCase t) = matchesSearch d t"
    by (simp add: matchesSearch_def toLowerCase_idem)
  moreover have "matchesSearch
        (d\<lparr>Device.name := toLowerCase (Device.name d),
           Device.serialNumber := toLowerCase (Device.serialNumber d),
           Device.type := toLowerCase (Device.type d),
           Device.location := map_option toLowerCase (Device.location d)\<rparr>) t
      = matchesSearch d t"
    by (simp add: matchesSearch_def DeviceModel_location_def toLowerCase_idem
        toLowerCase_Nil_iff split: option.splits)
  ultimately show ?thesis by blast
qed

theorem matchesSearch_substring_witness:
  "matchesSearch sensor ''BUILDING a'' \<and> \<not> matchesSearch gateway ''Building''
   \<and> \<not> sublist (toLowerCase ''Building'') (toLowerCase (Device.name gateway))"
proof -
  have a: "sublist (toLowerCase ''BUILDING a'') (toLowerCase ''Building A'')" by code_simp
  have b: "Device.location sensor = Some ''Building A''" by (simp add: sensor_def)
  have c: "\<not> matchesSearch gateway ''Building''" by code_simp
  show ?thesis
    using matchesSearch_substring [of sensor "''BUILDING a''"]
      matchesSearch_substring [of gateway "''Building''"] a b c
    by simp
qed

text \<open>
  C8. For every device and current time: \<open>lastSeenFormatted\<close> is \<open>Never\<close> when
  \<open>lastSeenAt\<close> is absent; otherwise, with \<open>e\<close> the elapsed milliseconds, it is
  \<open>Just now\<close> when \<open>e\<close> is under one minute, \<open>N minute(s) ago\<close> with \<open>N = e div 60000\<close>
  when under one hour, \<open>N hour(s) ago\<close> with \<open>N = e div 3600000\<close> when under one day,
  and \<open>N day(s) ago\<close> with \<open>N = e div 86400000\<close> otherwise; the unit word is singular
  exactly when \<open>N = 1\<close>.
\<close>

theorem lastSeenFormatted_refines_spec:
  "lastSeenFormatted now d = lastSeenFormatted_spec now (DeviceModel_lastSeenAt d)"
proof (cases "lastSeenAt d")
  case None
  then show ?thesis
    by (simp add: lastSeenFormatted_def lastSeenFormatted_spec_def DeviceModel_lastSeenAt_def)
next
  case (Some t)
  define e where "e = now - t"
  consider "e < 60000" | "60000 \<le> e" "e < 3600000" | "3600000 \<le> e" "e < 86400000"
    | "86400000 \<le> e" by linarith
  then show ?thesis
  proof cases
    case 1
    then have "\<not> 0 < e div 60000" "\<not> 0 < e div 3600000" "\<not> 0 < e div 86400000"
      by (simp_all add: minutes_pos hours_pos days_pos)
    then show ?thesis using 1 Some
      by (simp add: lastSeenFormatted_def lastSeenFormatted_spec_def
          DeviceModel_lastSeenAt_def Let_def hours_div days_div e_def [symmetric])
  next
    case 2
    then have "0 < e div 60000" "\<not> 0 < e div 3600000" "\<not> 0 < e div 86400000"
      by (simp_all add: minutes_pos hours_pos days_pos)
    then show ?thesis using 2 Some plural_suffix [of "e div 60000"]
      by (simp add: lastSeenFormatted_def lastSeenFormatted_spec_def
          DeviceModel_lastSeenAt_def Let_def hours_div days_div e_def [symmetric] ago_spec_def)
  next
    case 3
    then have "0 < e div 3600000" "\<not> 0 < e div 86400000"
      by (simp_all add: minutes_pos hours_pos days_pos)
    then show ?thesis using 3 Some plural_suffix [of "e div 3600000"]
      by (simp add: lastSeenFormatted_def lastSeenFormatted_spec_def
          DeviceModel_lastSeenAt_def Let_def hours_div days_div e_def [symmetric] ago_spec_def)
  next
    case 4
    then have "0 < e div 86400000"
      by (simp_all add: minutes_pos hours_pos days_pos)
    then show ?thesis using 4 Some plural_suffix [of "e div 86400000"]
      by (simp add: lastSeenFormatted_def lastSeenFormatted_spec_def
          DeviceModel_lastSeenAt_def Let_def hours_div days_div e_def [symmetric] ago_spec_def)
  qed
qed

theorem lastSeenFormatted_refines_spec_witness:
  "lastSeenFormatted_spec 1801000 (Some 1000) = ''30 minutes ago''
   \<and> lastSeenFormatted_spec 3601000 (Some 1000) = ''1 hour ago''
   \<and> lastSeenFormatted_spec 259201000 (Some 1000) = ''3 days ago''
   \<and> lastSeenFormatted_spec 1000 (Some 1000) = ''Just now''
   \<and> lastSeenFormatted_spec 1000 None = ''Never''"
proof -
  have a: "DeviceModel_lastSeenAt sensor = Some 1000"
    by (simp add: DeviceModel_lastSeenAt_def sensor_def)
  have b: "DeviceModel_lastSeenAt gateway = None"
    by (simp add: DeviceModel_lastSeenAt_def gateway_def)
  have c: "lastSeenFormatted 1801000 sensor = ''30 minutes ago''" by code_simp
  have d: "lastSeenFormatted 3601000 sensor = ''1 hour ago''" by code_simp
  have e: "lastSeenFormatted 259201000 sensor = ''3 days ago''" by code_simp
  have f: "lastSeenFormatted 1000 sensor = ''Just now''" by code_simp
  have g: "lastSeenFormatted 1000 gateway = ''Never''" by code_simp
  show ?thesis
    using lastSeenFormatted_refines_spec [of 1801000 sensor]
      lastSeenFormatted_refines_spec [of 3601000 sensor]
      lastSeenFormatted_refines_spec [of 259201000 sensor]
      lastSeenFormatted_refines_spec [of 1000 sensor]
      lastSeenFormatted_refines_spec [of 1000 gateway] a b c d e f g
    by simp
qed

text \<open>
  C10. For every device whose \<open>lastSeenAt\<close> lies strictly after the current time,
  \<open>lastSeenFormatted\<close> is \<open>Just now\<close>: the floored minutes, hours and days are all
  negative, so none of the three branches that need a positive number is taken.
\<close>

theorem lastSeenFormatted_future:
  assumes "DeviceModel_lastSeenAt d = Some seen" and "now < seen"
  shows "lastSeenFormatted now d = ''Just now''
         \<and> (now - seen) div 60000 < 0
         \<and> (now - seen) div 60000 div 60 < 0
         \<and> (now - seen) div 60000 div 60 div 24 < 0"
proof -
  have m: "(now - seen) div 60000 < 0" using assms(2) by (simp add: div_neg_pos_less0)
  then have h: "(now - seen) div 60000 div 60 < 0" by (simp add: div_neg_pos_less0)
  then have dd: "(now - seen) div 60000 div 60 div 24 < 0" by (simp add: div_neg_pos_less0)
  show ?thesis using m h dd assms(1)
    by (simp add: lastSeenFormatted_def Let_def)
qed

theorem lastSeenFormatted_future_witness:
  "DeviceModel_lastSeenAt sensor = Some 1000 \<and> (999::int) < 1000
   \<and> lastSeenFormatted 999 sensor = ''Just now''
   \<and> lastSeenFormatted (- 86400000000) sensor = ''Just now''"
proof -
  have a: "DeviceModel_lastSeenAt sensor = Some 1000"
    by (simp add: DeviceModel_lastSeenAt_def sensor_def)
  show ?thesis
    using lastSeenFormatted_future [OF a, of 999]
      lastSeenFormatted_future [OF a, of "- 86400000000"] a
    by simp
qed

text \<open>
  C9. For every device, \<open>matchesSearch\<close> of the empty string is true, whether or not
  the location is present; so filtering with the empty term would keep every device,
  and \<open>filteredDevices\<close> with the empty term, which takes the branch that does not
  filter, is the device list itself.
\<close>

theorem matchesSearch_empty_term:
  "matchesSearch d []
   \<and> filter (\<lambda>x. matchesSearch x []) ds = ds
   \<and> filteredDevices data (h\<lparr>searchTerm := []\<rparr>) = devices data"
  by (simp add: matchesSearch_def toLowerCase_def includes_Nil filteredDevices_def)

theorem matchesSearch_empty_term_witness:
  "matchesSearch gateway [] \<and> Device.location gateway = None"
  using matchesSearch_empty_term [of gateway "[]" None h0] by (simp add: gateway_def)

section \<open>The view model\<close>

text \<open>
  C7. For every device list and search term: with the empty search term
  \<open>filteredDevices\<close> is the device list, element for element in the same order; with
  a non-empty term it is exactly the devices that satisfy \<open>matchesSearch\<close> of the
  term, in their original order, so a term that matches exactly one device gives a
  list of length 1.
\<close>

theorem filteredDevices_filter:
  "(searchTerm h = [] \<longrightarrow> filteredDevices data h = devices data)
   \<and> (searchTerm h \<noteq> [] \<longrightarrow>
        filteredDevices data h
          = filter (\<lambda>x. matchesSearch x (searchTerm h)) (devices data))
   \<and> subseq (filteredDevices data h) (devices data)
   \<and> (searchTerm h \<noteq> [] \<longrightarrow> devices data = xs @ [x] @ ys
        \<longrightarrow> matchesSearch x (searchTerm h)
        \<longrightarrow> (\<forall>y \<in> set xs \<union> set ys. \<not> matchesSearch y (searchTerm h))
        \<longrightarrow> filteredDevices data h = [x] \<and> length (filteredDevices data h) = 1)"
  by (auto simp: filteredDevices_def filter_empty_conv)

theorem filteredDevices_filter_witness:
  "filteredDevices (Some [sensor, gateway]) (h0\<lparr>searchTerm := ''gateway''\<rparr>) = [gateway]
   \<and> filteredDevices (Some [sensor, gateway]) h0 = [sensor, gateway]"
proof -
  have a: "matchesSearch gateway ''gateway''" by code_simp
  have b: "\<not> matchesSearch sensor ''gateway''" by code_simp
  have c: "devices (Some [sensor, gateway]) = [sensor] @ [gateway] @ []"
    by (simp add: devices_def)
  have d: "searchTerm h0 = []" by (simp add: h0_def)
  show ?thesis
    using filteredDevices_filter [of "h0\<lparr>searchTerm := ''gateway''\<rparr>"
        "Some [sensor, gateway]" "[sensor]" gateway "[]"]
      filteredDevices_filter [of h0 "Some [sensor, gateway]"] a b c d
    by simp
qed

text \<open>
  C1. For every create input: when the name, the serial number or the firmware version
  fails its validator, \<open>createDevice\<close> fails with the message of the first failing
  field (name, then serial number, then firmware version) and hands nothing to the
  data client; the data client is called, once and with the input, only when all
  three validators accept, and then its outcome is the outcome of \<open>createDevice\<close>.
\<close>

theorem createDevice_validates_first:
  "(\<not> isValidName (CreateDeviceInput.name input) \<longrightarrow>
      fst (createDevice m input h)
        = Inl (JsError ''Device name must be between 3 and 50 characters'')
      \<and> sent (snd (createDevice m input h)) = sent h)
   \<and> (isValidName (CreateDeviceInput.name input)
      \<and> \<not> isValidSerialNumber (CreateDeviceInput.serialNumber input) \<longrightarrow>
      fst (createDevice m input h)
        = Inl (JsError ''Invalid serial number format (expected: XX-000-XXX)'')
      \<and> sent (snd (createDevice m input h)) = sent h)
   \<and> (isValidName (CreateDeviceInput.name input)
      \<and> isValidSerialNumber (CreateDeviceInput.serialNumber input)
      \<and> \<not> isValidFirmwareVersion (CreateDeviceInput.firmwareVersion input) \<longrightarrow>
      fst (createDevice m input h)
        = Inl (JsError ''Invalid firmware version format (expected: X.Y.Z)'')
      \<and> sent (snd (createDevice m input h)) = sent h)
   \<and> (isValidName (CreateDeviceInput.name input)
      \<and> isValidSerialNumber (CreateDeviceInput.serialNumber input)
      \<and> isValidFirmwareVersion (CreateDeviceInput.firmwareVersion input) \<longrightarrow>
      fst (createDevice m input h) = m input
      \<and> sent (snd (createDevice m input h)) = sent h @ [CreateDeviceMutation input])
   \<and> selectedDeviceId (snd (createDevice m input h)) = selectedDeviceId h
   \<and> searchTerm (snd (createDevice m input h)) = searchTerm h"
  by (cases "m input") (simp_all add: createDevice_def rethrow_def Let_def)

theorem createDevice_validates_first_witness:
  "fst (createDevice resolves createShort h0)
     = Inl (JsError ''Device name must be between 3 and 50 characters'')
   \<and> sent (snd (createDevice resolves createShort h0)) = []
   \<and> sent (snd (createDevice resolves createGood h0)) = [CreateDeviceMutation createGood]"
proof -
  have a: "\<not> isValidName (CreateDeviceInput.name createShort)" by code_simp
  have b: "isValidName (CreateDeviceInput.name createGood)" by code_simp
  have c: "isValidSerialNumber (CreateDeviceInput.serialNumber createGood)" by code_simp
  have d: "isValidFirmwareVersion (CreateDeviceInput.firmwareVersion createGood)" by code_simp
  have e: "sent h0 = []" by (simp add: h0_def)
  show ?thesis
    using createDevice_validates_first [of createShort resolves h0]
      createDevice_validates_first [of createGood resolves h0] a b c d e
    by simp
qed

text \<open>
  C2. For every id: when the data client's delete call succeeds and the selection is
  that id at the time of the call, the selection is empty afterwards (any other
  selection is kept); when the delete call fails, the error goes to the caller and the
  selection is left as it was, also when it is the id that was to be deleted.
\<close>

theorem deleteDevice_selection:
  "(m deviceId = Inr () \<longrightarrow>
      fst (deleteDevice m deviceId h) = Inr ()
      \<and> (selectedDeviceId h = Some deviceId \<longrightarrow>
           selectedDeviceId (snd (deleteDevice m deviceId h)) = None)
      \<and> (selectedDeviceId h \<noteq> Some deviceId \<longrightarrow>
           selectedDeviceId (snd (deleteDevice m deviceId h)) = selectedDeviceId h))
   \<and> (m deviceId = Inl e \<longrightarrow>
      fst (deleteDevice m deviceId h) = Inl e
      \<and> selectedDeviceId (snd (deleteDevice m deviceId h)) = selectedDeviceId h)
   \<and> sent (snd (deleteDevice m deviceId h)) = sent h @ [DeleteDeviceMutation deviceId]"
  by (cases "m deviceId") (simp_all add: deleteDevice_def rethrow_def Let_def)

theorem deleteDevice_selection_witness:
  "selectedDeviceId h0 = Some ''1''
   \<and> selectedDeviceId (snd (deleteDevice resolves ''1'' h0)) = None
   \<and> fst (deleteDevice rejects ''1'' h0) = Inl (JsError ''Network error'')
   \<and> selectedDeviceId (snd (deleteDevice rejects ''1'' h0)) = Some ''1''"
proof -
  have a: "selectedDeviceId h0 = Some ''1''" by (simp add: h0_def)
  have b: "resolves ''1'' = Inr ()" by (simp add: resolves_def)
  have c: "rejects ''1'' = Inl (JsError ''Network error'')" by (simp add: rejects_def)
  show ?thesis
    using deleteDevice_selection [where m = resolves and deviceId = "''1''" and h = h0]
      deleteDevice_selection [where m = rejects and deviceId = "''1''" and h = h0
        and e = "JsError ''Network error''"] a b c
    by simp
qed

text \<open>
  What \<open>updateDevice\<close> checks: a name or a firmware version that is present and not
  the empty string is validated before the data client is called; a field that is
  absent, or the empty string, is not.
\<close>

lemma updateDevice_checks_truthy_fields:
  "(truthy (UpdateDeviceInput.name input)
      \<and> \<not> isValidName (the (UpdateDeviceInput.name input)) \<longrightarrow>
      fst (updateDevice m input h)
        = Inl (JsError ''Device name must be between 3 and 50 characters'')
      \<and> sent (snd (updateDevice m input h)) = sent h)
   \<and> (\<not> (truthy (UpdateDeviceInput.name input)
           \<and> \<not> isValidName (the (UpdateDeviceInput.name input)))
      \<and> truthy (UpdateDeviceInput.firmwareVersion input)
      \<and> \<not> isValidFirmwareVersion (the (UpdateDeviceInput.firmwareVersion input)) \<longrightarrow>
      fst (updateDevice m input h)
        = Inl (JsError ''Invalid firmware version format (expected: X.Y.Z)'')
      \<and> sent (snd (updateDevice m input h)) = sent h)
   \<and> (\<not> truthy (UpdateDeviceInput.name input)
      \<and> \<not> truthy (UpdateDeviceInput.firmwareVersion input) \<longrightarrow>
      fst (updateDevice m input h) = m input
      \<and> sent (snd (updateDevice m input h)) = sent h @ [UpdateDeviceMutation input])"
  by (cases "m input") (simp_all add: updateDevice_def rethrow_def Let_def)

text \<open>
  C3. An update input whose name is present but invalid must not reach the data
  client. At the input \<open>{id: "1", name: ""}\<close> the name is present and is not a valid
  name, and \<open>updateDevice\<close> hands the input to the data client and succeeds.
\<close>

theorem updateDevice_empty_name_sent:
  "UpdateDeviceInput.name updateEmptyName = Some []
   \<and> isValidName [] = False
   \<and> fst (updateDevice resolves updateEmptyName h0) = Inr ()
   \<and> sent (snd (updateDevice resolves updateEmptyName h0))
       = [UpdateDeviceMutation updateEmptyName]"
  by (simp add: updateDevice_def updateEmptyName_def h0_def resolves_def truthy_def
      isValidName_def trim_def)

end
